theory Spec2Isabelle
  imports Main "HOL-Library.Word"
begin

section \<open>Strings, bytes and errors of the JavaScript runtime\<close>

text \<open>
  A JavaScript string is a sequence of UTF-16 code units; a code unit is modelled as a
  natural number. String literals of the source are written \<open>str ''...''\<close>, single
  characters \<open>ch CHR ''c''\<close>. A \<open>Buffer\<close> is a list of bytes.
\<close>

type_synonym jsstring = "nat list"

type_synonym byte = "8 word"

abbreviation str :: "string \<Rightarrow> jsstring" where
  "str s \<equiv> map of_char s"

abbreviation ch :: "char \<Rightarrow> nat" where
  "ch c \<equiv> of_char c"

text \<open>
  A thrown value: the two properties of an \<open>Error\<close> object that the source reads.
  \<open>new Error(m)\<close> has the message \<open>m\<close> and no \<open>code\<close>; errors of the file system and
  of the resolver carry a \<open>code\<close> such as \<open>ENOENT\<close> or \<open>ENOTFOUND\<close>. A rejected
  promise or a \<open>throw\<close> is the left summand of a result.
\<close>

record js_error =
  code :: "jsstring option"
  message :: "jsstring option"

definition Error :: "jsstring \<Rightarrow> js_error" where
  "Error m = \<lparr>code = None, message = Some m\<rparr>"

text \<open>A template literal prints an undefined value as \<open>undefined\<close>.\<close>

definition template :: "jsstring option \<Rightarrow> jsstring" where
  "template v = (case v of None \<Rightarrow> str ''undefined'' | Some s \<Rightarrow> s)"

text \<open>\<open>String.prototype.startsWith\<close> and \<open>String.prototype.includes\<close>.\<close>

definition startsWith :: "jsstring \<Rightarrow> jsstring \<Rightarrow> bool" where
  "startsWith s p = (take (length p) s = p)"

fun str_includes :: "jsstring \<Rightarrow> jsstring \<Rightarrow> bool" where
  "str_includes [] n = (n = [])"
| "str_includes (c # cs) n = (startsWith (c # cs) n \<or> str_includes cs n)"

text \<open>
  \<open>String.prototype.toLowerCase\<close>. The ASCII capitals map to their small letters. Two
  code units outside ASCII lower-case to an ASCII letter: U+0130 (to \<open>i\<close> followed by
  U+0307) and the Kelvin sign U+212A (to \<open>k\<close>). Every other code unit outside ASCII is
  kept: its lower case, where it has one, is again outside ASCII, and the source only
  compares the result with ASCII literals and filters it through ASCII character classes.
\<close>

definition lowerUnit :: "nat \<Rightarrow> jsstring" where
  "lowerUnit c =
    (if ch CHR ''A'' \<le> c \<and> c \<le> ch CHR ''Z'' then [c + 32]
     else if c = 0x130 then [ch CHR ''i'', 0x307]
     else if c = 0x212A then [ch CHR ''k'']
     else [c])"

definition toLowerCase :: "jsstring \<Rightarrow> jsstring" where
  "toLowerCase s = concat (map lowerUnit s)"

text \<open>
  The character class \<open>\s\<close> of a regular expression, which is also what
  \<open>String.prototype.trim\<close> removes: white space and line terminators.
\<close>

definition isWhiteSpace :: "nat \<Rightarrow> bool" where
  "isWhiteSpace c =
    (c = 0x09 \<or> c = 0x0A \<or> c = 0x0B \<or> c = 0x0C \<or> c = 0x0D \<or> c = 0x20 \<or> c = 0xA0
     \<or> c = 0x1680 \<or> (0x2000 \<le> c \<and> c \<le> 0x200A) \<or> c = 0x2028 \<or> c = 0x2029
     \<or> c = 0x202F \<or> c = 0x205F \<or> c = 0x3000 \<or> c = 0xFEFF)"

definition trim :: "jsstring \<Rightarrow> jsstring" where
  "trim s = rev (dropWhile isWhiteSpace (rev (dropWhile isWhiteSpace s)))"

definition isDigit :: "nat \<Rightarrow> bool" where
  "isDigit c = (ch CHR ''0'' \<le> c \<and> c \<le> ch CHR ''9'')"


text \<open>Decimal printing of a non-negative integer, as a template literal does it.\<close>

fun showNat :: "nat \<Rightarrow> jsstring" where
  "showNat n =
    (if n < 10 then [ch CHR ''0'' + n]
     else showNat (n div 10) @ [ch CHR ''0'' + n mod 10])"

declare showNat.simps [simp del]

text \<open>Reading a decimal numeral back, to show that printing loses nothing.\<close>

fun readNat :: "nat \<Rightarrow> jsstring \<Rightarrow> nat" where
  "readNat acc [] = acc"
| "readNat acc (c # cs) = readNat (10 * acc + (c - ch CHR ''0'')) cs"

section \<open>The IP classifier (src/utils.js, isBlockedIP)\<close>

text \<open>
  \<open>s.replace(/^\[|\]$/g, '')\<close>: an opening bracket at the start and a closing bracket
  at the end are removed, each where it stands.
\<close>

definition stripBrackets :: "jsstring \<Rightarrow> jsstring" where
  "stripBrackets s =
    (let s1 = (case s of [] \<Rightarrow> [] | c # cs \<Rightarrow> if c = ch CHR ''['' then cs else s)
     in if s1 \<noteq> [] \<and> last s1 = ch CHR '']'' then butlast s1 else s1)"

text \<open>The pattern \<open>/^172\.(1[6-9]|2[0-9]|3[0-1])\./\<close>.\<close>

definition privateClassB :: "jsstring \<Rightarrow> bool" where
  "privateClassB s =
    (startsWith s (str ''172.'') \<and>
     (case drop 4 s of
        a # b # c # _ \<Rightarrow>
          ((a = ch CHR ''1'' \<and> ch CHR ''6'' \<le> b \<and> b \<le> ch CHR ''9'')
           \<or> (a = ch CHR ''2'' \<and> ch CHR ''0'' \<le> b \<and> b \<le> ch CHR ''9'')
           \<or> (a = ch CHR ''3'' \<and> ch CHR ''0'' \<le> b \<and> b \<le> ch CHR ''1''))
          \<and> c = ch CHR ''.''
      | _ \<Rightarrow> False))"

definition blockedPatterns :: "(jsstring \<Rightarrow> bool) list" where
  "blockedPatterns =
    [\<lambda>s. startsWith s (str ''127.''),
     \<lambda>s. startsWith s (str ''10.''),
     privateClassB,
     \<lambda>s. startsWith s (str ''192.168.''),
     \<lambda>s. startsWith s (str ''169.254.''),
     \<lambda>s. startsWith s (str ''0.''),
     \<lambda>s. s = str ''::1'',
     \<lambda>s. startsWith s (str ''fe80:''),
     \<lambda>s. startsWith s (str ''fc00:''),
     \<lambda>s. startsWith s (str ''fd00:'')]"

definition isBlockedIP :: "jsstring \<Rightarrow> bool" where
  "isBlockedIP ip =
    (let cleanIP = stripBrackets ip in
     if cleanIP = str ''localhost'' \<or> cleanIP = str ''127.0.0.1'' \<or> cleanIP = str ''::1''
     then True
     else if cleanIP \<in> set [str ''metadata.google.internal'', str ''metadata'',
                             str ''169.254.169.254'']
     then True
     else list_ex (\<lambda>pattern. pattern cleanIP) blockedPatterns)"

section \<open>The URL validator (src/utils.js, validateImageUrl)\<close>

text \<open>
  What the validator takes from the runtime: the URL parser (\<open>new URL\<close>, which throws
  on an unparseable string and otherwise gives a protocol and a host name), the two
  address syntax tests of \<open>net\<close>, and the resolver \<open>lookup\<close> of \<open>dns/promises\<close>, which
  gives an address or rejects with an error.
\<close>

record url =
  protocol :: jsstring
  hostname :: jsstring

record runtime =
  urlParse :: "jsstring \<Rightarrow> url option"
  isIPv4 :: "jsstring \<Rightarrow> bool"
  isIPv6 :: "jsstring \<Rightarrow> bool"
  lookup :: "jsstring \<Rightarrow> js_error + jsstring"

text \<open>
  The pattern \<open>/\[::ffff:(\d+\.\d+\.\d+\.\d+)\]/i\<close>. Under the flag \<open>i\<close> an ASCII letter
  of the input matches a pattern letter when both have the same capital. \<open>\d+\<close> is
  greedy, and neither a dot nor a bracket is a digit, so each group of digits is the
  longest run of digits, which must not be empty and must be followed by the separator.
\<close>

definition canonicalize :: "nat \<Rightarrow> nat" where
  "canonicalize c = (if ch CHR ''a'' \<le> c \<and> c \<le> ch CHR ''z'' then c - 32 else c)"

definition digitsThen :: "nat \<Rightarrow> jsstring \<Rightarrow> (jsstring \<times> jsstring) option" where
  "digitsThen sep s =
    (let ds = takeWhile isDigit s in
     if ds = [] then None
     else (case dropWhile isDigit s of
             [] \<Rightarrow> None
           | c # r \<Rightarrow> if c = sep then Some (ds, r) else None))"

definition matchMappedAt :: "jsstring \<Rightarrow> jsstring option" where
  "matchMappedAt s =
    (if map canonicalize (take 8 s) = map canonicalize (str ''[::ffff:'') then
       (case digitsThen (ch CHR ''.'') (drop 8 s) of
          None \<Rightarrow> None
        | Some (a, r1) \<Rightarrow>
       (case digitsThen (ch CHR ''.'') r1 of
          None \<Rightarrow> None
        | Some (b, r2) \<Rightarrow>
       (case digitsThen (ch CHR ''.'') r2 of
          None \<Rightarrow> None
        | Some (c, r3) \<Rightarrow>
       (case digitsThen (ch CHR '']'') r3 of
          None \<Rightarrow> None
        | Some (d, r4) \<Rightarrow> Some (a @ str ''.'' @ b @ str ''.'' @ c @ str ''.'' @ d)))))
     else None)"

text \<open>
  \<open>url.match(...)\<close> without the flag \<open>g\<close>: the leftmost position at which the pattern
  matches, and there the captured dotted quad.
\<close>

fun matchMapped :: "jsstring \<Rightarrow> jsstring option" where
  "matchMapped [] = None"
| "matchMapped (c # cs) =
    (case matchMappedAt (c # cs) of
       Some q \<Rightarrow> Some q
     | None \<Rightarrow> matchMapped cs)"

definition privatePatterns :: "(jsstring \<Rightarrow> bool) list" where
  "privatePatterns =
    [\<lambda>s. startsWith s (str ''10.''),
     privateClassB,
     \<lambda>s. startsWith s (str ''192.168.''),
     \<lambda>s. startsWith s (str ''169.254.''),
     \<lambda>s. startsWith s (str ''0.'')]"

text \<open>Lines 88 to 112: the scan of the raw string, before it is parsed.\<close>

definition preParseScan :: "jsstring \<Rightarrow> js_error option" where
  "preParseScan u =
    (case matchMapped u of
       None \<Rightarrow> None
     | Some extractedIPv4 \<Rightarrow>
         if extractedIPv4 = str ''127.0.0.1'' \<or> startsWith extractedIPv4 (str ''127.'')
         then Some (Error (str ''Access to localhost is not allowed''))
         else if list_ex (\<lambda>pattern. pattern extractedIPv4) privatePatterns
         then Some (Error (str ''Access to internal/private IP addresses is not allowed''))
         else None)"

text \<open>
  Lines 156 to 167: the \<open>catch\<close> block around the resolution. It receives what
  \<open>lookup\<close> rejected with, and also the error thrown inside the \<open>try\<close> block for a
  blocked address.
\<close>

definition dnsCatch :: "jsstring \<Rightarrow> js_error \<Rightarrow> js_error" where
  "dnsCatch host error =
    (if code error = Some (str ''ENOTFOUND'')
     then Error (str ''Domain '' @ host @ str '' could not be resolved'')
     else if (case message error of
                None \<Rightarrow> False
              | Some m \<Rightarrow> m \<noteq> [] \<and> str_includes m (str ''resolves to internal''))
     then error
     else Error (str ''Failed to validate domain '' @ host @ str '': ''
                 @ template (message error)))"

text \<open>
  The validator returns the host names it asked the resolver for, in order, and its
  result: the URL string, or the error it throws.
\<close>

definition validateImageUrl ::
    "runtime \<Rightarrow> jsstring \<Rightarrow> jsstring list \<times> (js_error + jsstring)" where
  "validateImageUrl rt u =
    (case preParseScan u of
       Some e \<Rightarrow> ([], Inl e)
     | None \<Rightarrow>
    (case urlParse rt u of
       None \<Rightarrow> ([], Inl (Error (str ''Invalid URL: '' @ u)))
     | Some parsed \<Rightarrow>
         if protocol parsed \<noteq> str ''https:''
         then ([], Inl (Error (str ''Only HTTPS URLs are allowed for security reasons'')))
         else
           (let host = toLowerCase (hostname parsed);
                cleanHostname = stripBrackets host
            in
            if cleanHostname \<in> set [str ''localhost'', str ''metadata.google.internal'',
                                      str ''metadata'']
            then ([], Inl (Error (str ''Access to cloud metadata endpoints is not allowed'')))
            else if isIPv4 rt cleanHostname \<or> isIPv6 rt cleanHostname
            then
              (if isBlockedIP cleanHostname
               then ([], Inl (Error
                       (str ''Access to internal/private IP addresses is not allowed'')))
               else ([], Inr u))
            else
              ([host],
               (case lookup rt host of
                  Inl error \<Rightarrow> Inl (dnsCatch host error)
                | Inr address \<Rightarrow>
                    if isBlockedIP address
                    then Inl (dnsCatch host (Error
                           (str ''Domain '' @ host
                            @ str '' resolves to internal/private IP address'')))
                    else Inr u)))))"

text \<open>
  The address blocks as the specification names them, read off the first group of
  hexadecimal digits of an IPv6 address: \<open>inPrefix base bits ip\<close> holds when the first
  \<open>bits\<close> bits of the address are those of \<open>base\<close> (for \<open>bits\<close> up to 16).
\<close>

definition hexDigit :: "nat \<Rightarrow> nat option" where
  "hexDigit c =
    (if isDigit c then Some (c - ch CHR ''0'')
     else if ch CHR ''a'' \<le> c \<and> c \<le> ch CHR ''f'' then Some (c - ch CHR ''a'' + 10)
     else if ch CHR ''A'' \<le> c \<and> c \<le> ch CHR ''F'' then Some (c - ch CHR ''A'' + 10)
     else None)"

fun hexValue :: "nat \<Rightarrow> jsstring \<Rightarrow> nat option" where
  "hexValue acc [] = Some acc"
| "hexValue acc (c # cs) =
    (case hexDigit c of
       None \<Rightarrow> None
     | Some d \<Rightarrow> hexValue (16 * acc + d) cs)"

definition firstHextet :: "jsstring \<Rightarrow> nat option" where
  "firstHextet ip =
    (let g = takeWhile (\<lambda>c. c \<noteq> ch CHR '':'') ip in
     if g = [] \<or> 4 < length g then None else hexValue 0 g)"

definition inPrefix :: "nat \<Rightarrow> nat \<Rightarrow> jsstring \<Rightarrow> bool" where
  "inPrefix base bits ip =
    (case firstHextet ip of
       None \<Rightarrow> False
     | Some h \<Rightarrow> h div 2 ^ (16 - bits) = base div 2 ^ (16 - bits))"

text \<open>
  A string holds a blocked mapped literal when the pattern matches at some position and
  the dotted quad found there starts with \<open>127.\<close> or matches a private pattern.
\<close>

definition blockedQuad :: "jsstring \<Rightarrow> bool" where
  "blockedQuad q =
    (startsWith q (str ''127.'') \<or> list_ex (\<lambda>pattern. pattern q) privatePatterns)"

fun containsBlockedMapped :: "jsstring \<Rightarrow> bool" where
  "containsBlockedMapped [] = False"
| "containsBlockedMapped (c # cs) =
    ((case matchMappedAt (c # cs) of
        None \<Rightarrow> False
      | Some q \<Rightarrow> blockedQuad q)
     \<or> containsBlockedMapped cs)"

text \<open>
  An https URL whose host name is a domain: it parses, its protocol is \<open>https:\<close>, and
  its host name is neither an IPv4 nor an IPv6 literal.
\<close>

definition httpsDomainUrl :: "runtime \<Rightarrow> jsstring \<Rightarrow> bool" where
  "httpsDomainUrl rt u =
    (case urlParse rt u of
       None \<Rightarrow> False
     | Some parsed \<Rightarrow>
         protocol parsed = str ''https:''
         \<and> \<not> isIPv4 rt (stripBrackets (toLowerCase (hostname parsed)))
         \<and> \<not> isIPv6 rt (stripBrackets (toLowerCase (hostname parsed))))"

text \<open>
  A runtime for the examples: what Node gives for a handful of strings. The parser
  knows the URLs of the test suite and three more, with the host names the WHATWG parser
  gives them (an IPv4-mapped literal comes back in hexadecimal, and what stands before
  an \<open>@\<close> is user information, not the host). Every other string does not parse. The
  resolver gives a public address for \<open>example.com\<close>, the loopback address for
  \<open>evil.com\<close>, a time-out for \<open>timeout.example.com\<close>, and \<open>ENOTFOUND\<close> otherwise.
\<close>

definition sampleRuntime :: runtime where
  "sampleRuntime =
    \<lparr>urlParse = map_of
       [(str ''https://example.com/image.jpg'',
           \<lparr>protocol = str ''https:'', hostname = str ''example.com''\<rparr>),
        (str ''http://example.com/image.jpg'',
           \<lparr>protocol = str ''http:'', hostname = str ''example.com''\<rparr>),
        (str ''https://localhost/image.jpg'',
           \<lparr>protocol = str ''https:'', hostname = str ''localhost''\<rparr>),
        (str ''https://metadata.google.internal/computeMetadata'',
           \<lparr>protocol = str ''https:'', hostname = str ''metadata.google.internal''\<rparr>),
        (str ''https://10.0.0.1/image.jpg'',
           \<lparr>protocol = str ''https:'', hostname = str ''10.0.0.1''\<rparr>),
        (str ''https://evil.com/image.jpg'',
           \<lparr>protocol = str ''https:'', hostname = str ''evil.com''\<rparr>),
        (str ''https://nonexistent.domain.invalid/image.jpg'',
           \<lparr>protocol = str ''https:'', hostname = str ''nonexistent.domain.invalid''\<rparr>),
        (str ''https://timeout.example.com/image.jpg'',
           \<lparr>protocol = str ''https:'', hostname = str ''timeout.example.com''\<rparr>),
        (str ''https://[::ffff:8.8.8.8]@[::ffff:127.0.0.1]/x'',
           \<lparr>protocol = str ''https:'', hostname = str ''[::ffff:7f00:1]''\<rparr>),
        (str ''https://[fd12:3456:789a::1]/x'',
           \<lparr>protocol = str ''https:'', hostname = str ''[fd12:3456:789a::1]''\<rparr>)],
     isIPv4 = (\<lambda>h. h \<in> set [str ''10.0.0.1'', str ''127.0.0.1'', str ''8.8.8.8'']),
     isIPv6 = (\<lambda>h. h \<in> set [str ''::ffff:7f00:1'', str ''fd12:3456:789a::1'', str ''fe90::1'']),
     lookup = (\<lambda>h.
       if h = str ''example.com'' then Inr (str ''8.8.8.8'')
       else if h = str ''evil.com'' then Inr (str ''127.0.0.1'')
       else if h = str ''timeout.example.com''
       then Inl \<lparr>code = None, message = Some (str ''ETIMEDOUT'')\<rparr>
       else Inl \<lparr>code = Some (str ''ENOTFOUND''), message = None\<rparr>)\<rparr>"

section \<open>The file content validator (src/utils.js, validateImagePath)\<close>

text \<open>
  \<open>Buffer.prototype.slice\<close> clamps both ends to the buffer; reading an index past the
  end gives \<open>undefined\<close>, which is no byte.
\<close>

definition bufferSlice :: "nat \<Rightarrow> nat \<Rightarrow> byte list \<Rightarrow> byte list" where
  "bufferSlice start end buffer = take (end - start) (drop start buffer)"

definition bufferAt :: "byte list \<Rightarrow> nat \<Rightarrow> byte option" where
  "bufferAt buffer i = (if i < length buffer then Some (buffer ! i) else None)"

text \<open>
  \<open>Buffer.prototype.toString\<close> decodes UTF-8. The decoder keeps the number of
  continuation bytes it still needs, the code point read so far, and the range allowed
  for the next byte; an ill-formed sequence gives U+FFFD and the offending byte is read
  again as the start of a sequence. A code point beyond U+FFFF gives a surrogate pair.
\<close>

type_synonym utf8_state = "nat \<times> nat \<times> nat \<times> nat"

definition utf8Start :: utf8_state where
  "utf8Start = (0, 0, 0x80, 0xBF)"

definition utf8Lead :: "nat \<Rightarrow> jsstring \<times> utf8_state" where
  "utf8Lead b =
    (if b \<le> 0x7F then ([b], utf8Start)
     else if 0xC2 \<le> b \<and> b \<le> 0xDF then ([], (1, b - 0xC0, 0x80, 0xBF))
     else if 0xE0 \<le> b \<and> b \<le> 0xEF then
       ([], (2, b - 0xE0, if b = 0xE0 then 0xA0 else 0x80, if b = 0xED then 0x9F else 0xBF))
     else if 0xF0 \<le> b \<and> b \<le> 0xF4 then
       ([], (3, b - 0xF0, if b = 0xF0 then 0x90 else 0x80, if b = 0xF4 then 0x8F else 0xBF))
     else ([0xFFFD], utf8Start))"

definition utf16Units :: "nat \<Rightarrow> jsstring" where
  "utf16Units c =
    (if c < 0x10000 then [c]
     else [0xD800 + (c - 0x10000) div 1024, 0xDC00 + (c - 0x10000) mod 1024])"

definition utf8Cont :: "utf8_state \<Rightarrow> nat \<Rightarrow> jsstring \<times> utf8_state" where
  "utf8Cont st b =
    (case st of (needed, cp, lo, hi) \<Rightarrow>
      (let c = cp * 64 + (b - 0x80) in
       if needed = 1 then (utf16Units c, utf8Start)
       else ([], (needed - 1, c, 0x80, 0xBF))))"

fun utf8Decode :: "utf8_state \<Rightarrow> byte list \<Rightarrow> jsstring" where
  "utf8Decode st [] = (if fst st = 0 then [] else [0xFFFD])"
| "utf8Decode st (b # bs) =
    (if fst st = 0 then fst (utf8Lead (unat b)) @ utf8Decode (snd (utf8Lead (unat b))) bs
     else if \<not> (fst (snd (snd st)) \<le> unat b \<and> unat b \<le> snd (snd (snd st)))
       then 0xFFFD # utf8Decode (0, 0, 0x80, 0xBF) (b # bs)
     else fst (utf8Cont st (unat b)) @ utf8Decode (snd (utf8Cont st (unat b))) bs)"

definition bufferToString :: "byte list \<Rightarrow> jsstring" where
  "bufferToString buffer = utf8Decode utf8Start buffer"

text \<open>
  The invariant of the decoder's state. While continuation bytes are pending, the code
  point that the sequence can still reach is at least 128: a sequence of several bytes
  never decodes to an ASCII character.
\<close>

definition pendingOK :: "utf8_state \<Rightarrow> bool" where
  "pendingOK st =
    (case st of (needed, cp, lo, hi) \<Rightarrow>
       needed = 0 \<or> 128 \<le> (cp * 64 + (lo - 0x80)) * 64 ^ (needed - 1))"

text \<open>Lines 183 to 201: the body of the \<open>try\<close> block, given what \<open>readFile\<close> gave.\<close>

definition checkImageBytes :: "jsstring \<Rightarrow> byte list \<Rightarrow> js_error + jsstring" where
  "checkImageBytes filepath buffer =
    (if length buffer = 0 then Inl (Error (str ''Image file is empty: '' @ filepath))
     else
       (let magicBytes = bufferSlice 0 4 buffer;
            isPNG = (bufferAt magicBytes 0 = Some 0x89 \<and> bufferAt magicBytes 1 = Some 0x50
                     \<and> bufferAt magicBytes 2 = Some 0x4E \<and> bufferAt magicBytes 3 = Some 0x47);
            isJPEG = (bufferAt magicBytes 0 = Some 0xFF \<and> bufferAt magicBytes 1 = Some 0xD8
                      \<and> bufferAt magicBytes 2 = Some 0xFF);
            isWebP = (bufferToString (bufferSlice 8 12 buffer) = str ''WEBP'');
            isGIF = (bufferToString (bufferSlice 0 3 magicBytes) = str ''GIF'')
        in
        if \<not> isPNG \<and> \<not> isJPEG \<and> \<not> isWebP \<and> \<not> isGIF
        then Inl (Error (str ''File does not appear to be a valid image (PNG, JPEG, WebP, or GIF): ''
                         @ filepath))
        else Inr filepath))"

text \<open>
  The whole function: every error of the \<open>try\<close> block, from \<open>readFile\<close> or thrown by
  the checks, passes through the \<open>catch\<close> block of lines 202 to 209.
\<close>

definition validateImagePath ::
    "(jsstring \<Rightarrow> js_error + byte list) \<Rightarrow> jsstring \<Rightarrow> js_error + jsstring" where
  "validateImagePath readFile filepath =
    (case (case readFile filepath of
             Inl error \<Rightarrow> Inl error
           | Inr buffer \<Rightarrow> checkImageBytes filepath buffer) of
       Inr validated \<Rightarrow> Inr validated
     | Inl error \<Rightarrow>
         if code error = Some (str ''ENOENT'')
         then Inl (Error (str ''Image file not found: '' @ filepath))
         else if code error = Some (str ''EACCES'')
         then Inl (Error (str ''Permission denied reading image file: '' @ filepath))
         else Inl error)"

text \<open>
  The signature table of the specification: the format a buffer is recognised as, by
  its leading bytes and its bytes 8 to 11.
\<close>

datatype image_format = PNG | JPEG | WEBP | GIF

definition imageFormat :: "byte list \<Rightarrow> image_format option" where
  "imageFormat buffer =
    (if take 4 buffer = [0x89, 0x50, 0x4E, 0x47] then Some PNG
     else if take 3 buffer = [0xFF, 0xD8, 0xFF] then Some JPEG
     else if take 4 (drop 8 buffer) = [0x57, 0x45, 0x42, 0x50] then Some WEBP
     else if take 3 buffer = [0x47, 0x49, 0x46] then Some GIF
     else None)"

section \<open>The dimension validator (src/utils.js, assertSquareImage)\<close>

record dimensions =
  width :: nat
  height :: nat

text \<open>
  The argument is a buffer (or typed array), a string, or something else. The two
  decoders of \<open>image-size\<close> are taken from the runtime; each gives the dimensions or
  throws.
\<close>

datatype image_source = BufferSource "byte list" | PathSource jsstring | OtherSource

record decoders =
  imageSize :: "byte list \<Rightarrow> js_error + dimensions"
  imageSizeFromFile :: "jsstring \<Rightarrow> js_error + dimensions"

definition readDimensions :: "decoders \<Rightarrow> image_source \<Rightarrow> js_error + dimensions" where
  "readDimensions dec imageSource =
    (case imageSource of
       BufferSource buffer \<Rightarrow> imageSize dec buffer
     | PathSource path \<Rightarrow> imageSizeFromFile dec path
     | OtherSource \<Rightarrow> Inl (Error (str ''Unsupported image input'')))"

definition assertSquareImage :: "decoders \<Rightarrow> image_source \<Rightarrow> js_error + unit" where
  "assertSquareImage dec imageSource =
    (case readDimensions dec imageSource of
       Inl error \<Rightarrow>
         Inl (Error (str ''Unable to read image dimensions: '' @ template (message error)))
     | Inr dims \<Rightarrow>
         if width dims \<noteq> height dims
         then Inl (Error (str ''Image must be square. Received '' @ showNat (width dims)
                          @ str ''x'' @ showNat (height dims)))
         else Inr ())"

section \<open>The bounded fetch (src/utils.js, loadImageAsBuffer and downloadImageAsBuffer)\<close>

definition loadImageAsBuffer ::
    "(jsstring \<Rightarrow> js_error + byte list) \<Rightarrow> jsstring \<Rightarrow> js_error + byte list" where
  "loadImageAsBuffer readFile imagePath =
    (case validateImagePath readFile imagePath of
       Inl error \<Rightarrow> Inl error
     | Inr validated \<Rightarrow>
    (case readFile imagePath of
       Inl error \<Rightarrow> Inl error
     | Inr buffer \<Rightarrow>
         if length buffer > 50 * 1024 * 1024
         then Inl (Error (str ''Image file size exceeds maximum of 50MB''))
         else Inr buffer))"

text \<open>
  The request options handed to \<open>axios.get\<close>, and the part of its response that is
  read: the headers (by lower-case name) and the body.
\<close>

datatype response_type = ArrayBuffer

record request_config =
  responseType :: response_type
  timeout :: nat
  maxContentLength :: nat
  maxRedirects :: nat

record response =
  headers :: "jsstring \<Rightarrow> jsstring option"
  body :: "byte list"

type_synonym http_client = "jsstring \<Rightarrow> request_config \<Rightarrow> js_error + response"

text \<open>\<open>value.split(';')[0].trim()\<close>, for a header that is present.\<close>

definition mediaType :: "jsstring \<Rightarrow> jsstring" where
  "mediaType v = trim (takeWhile (\<lambda>c. c \<noteq> ch CHR '';'') v)"

definition allowedMimeTypes :: "jsstring list" where
  "allowedMimeTypes = [str ''image/png'', str ''image/jpeg'', str ''image/webp'', str ''image/gif'']"

definition downloadConfig :: request_config where
  "downloadConfig =
    \<lparr>responseType = ArrayBuffer, timeout = 60000, maxContentLength = 50 * 1024 * 1024,
     maxRedirects = 5\<rparr>"

text \<open>
  The download returns the requests it made (the URL and the options of each) and its
  result.
\<close>

definition downloadImageAsBuffer ::
    "runtime \<Rightarrow> http_client \<Rightarrow> jsstring
      \<Rightarrow> (jsstring \<times> request_config) list \<times> (js_error + byte list)" where
  "downloadImageAsBuffer rt axiosGet imageUrl =
    (case snd (validateImageUrl rt imageUrl) of
       Inl error \<Rightarrow> ([], Inl error)
     | Inr validatedUrl \<Rightarrow>
         ([(validatedUrl, downloadConfig)],
          (case axiosGet validatedUrl downloadConfig of
             Inl error \<Rightarrow> Inl error
           | Inr resp \<Rightarrow>
               (case headers resp (str ''content-type'') of
                  None \<Rightarrow>
                    Inl (Error (str ''Invalid Content-Type: '' @ template None
                                @ str ''. Expected image/* (png, jpeg, webp, gif)''))
                | Some v \<Rightarrow>
                    (let contentType = mediaType v in
                     if contentType = [] \<or> contentType \<notin> set allowedMimeTypes
                     then Inl (Error (str ''Invalid Content-Type: '' @ contentType
                                      @ str ''. Expected image/* (png, jpeg, webp, gif)''))
                     else Inr (body resp))))))"

text \<open>
  The client keeps the size limit when it never answers with a body longer than the
  \<open>maxContentLength\<close> it was given.
\<close>

definition keepsContentLength :: "http_client \<Rightarrow> bool" where
  "keepsContentLength axiosGet =
    (\<forall>u cfg resp. axiosGet u cfg = Inr resp \<longrightarrow> length (body resp) \<le> maxContentLength cfg)"

text \<open>
  A client for the examples: it answers every request with the four bytes of a JPEG
  header and a content type with a parameter, unless the size limit is below four.
\<close>

definition sampleClient :: http_client where
  "sampleClient u cfg =
    (if maxContentLength cfg < 4
     then Inl (Error (str ''maxContentLength size of 4 exceeded''))
     else Inr \<lparr>headers = (\<lambda>name. if name = str ''content-type''
                                    then Some (str ''image/jpeg; charset=binary'') else None),
               body = [0xFF, 0xD8, 0xFF, 0xE0]\<rparr>)"

section \<open>The file name sanitizer (src/utils.js, generateFilename)\<close>
















section \<open>The redaction of the API key (src/config.js, redactApiKey)\<close>





section \<open>Facts about the string operations\<close>

lemma startsWith_append: "startsWith (p @ s) p"
  by (simp add: startsWith_def)



lemma str_includes_append: "str_includes (a @ n @ b) n"
proof (induction a)
  case Nil
  have "startsWith (n @ b) n" by (simp add: startsWith_def)
  then show ?case by (cases "n @ b") auto
next
  case (Cons c a)
  then show ?case by simp
qed

section \<open>The redaction of the API key\<close>






section \<open>The file content validator\<close>

lemma pendingOK_start: "pendingOK utf8Start"
  by (simp add: pendingOK_def utf8Start_def)

lemma utf8Lead_ascii: "b < 0x80 \<Longrightarrow> utf8Lead b = ([b], utf8Start)"
  by (simp add: utf8Lead_def)

lemma utf8Lead_pending: "pendingOK (snd (utf8Lead b))"
  by (auto simp add: utf8Lead_def pendingOK_def utf8Start_def)

lemma utf8Lead_not_ascii:
  "\<not> b < 0x80 \<Longrightarrow> fst (snd (utf8Lead b)) = 0 \<Longrightarrow> \<not> list_all (\<lambda>c. c < 0x80) (fst (utf8Lead b))"
  by (auto simp add: utf8Lead_def utf8Start_def split: if_splits)

lemma utf16Units_high: "128 \<le> c \<Longrightarrow> \<not> list_all (\<lambda>c. c < 0x80) (utf16Units c)"
  by (auto simp add: utf16Units_def)

lemma utf8Decode_ascii:
  "list_all (\<lambda>b. unat b < 0x80) bs \<Longrightarrow> utf8Decode utf8Start bs = map unat bs"
proof (induction bs)
  case Nil
  show ?case by (simp add: utf8Start_def)
next
  case (Cons b bs)
  then have "unat b < 0x80" and rest: "utf8Decode utf8Start bs = map unat bs" by simp_all
  then have "utf8Lead (unat b) = ([unat b], utf8Start)" by (simp add: utf8Lead_ascii)
  moreover have "fst utf8Start = 0" by (simp add: utf8Start_def)
  ultimately show ?case using rest by simp
qed

lemma utf8Decode_ascii_only:
  "pendingOK st \<Longrightarrow> list_all (\<lambda>c. c < 0x80) (utf8Decode st bs)
    \<Longrightarrow> fst st = 0 \<and> list_all (\<lambda>b. unat b < 0x80) bs"
proof (induction st bs rule: utf8Decode.induct)
  case (1 st)
  then show ?case by (simp split: if_splits)
next
  case (2 st b bs)
  show ?case
  proof (cases "fst st = 0")
    case True
    from "2.prems"(2) True
    have out: "list_all (\<lambda>c. c < 0x80) (fst (utf8Lead (unat b)))"
      and rest: "list_all (\<lambda>c. c < 0x80) (utf8Decode (snd (utf8Lead (unat b))) bs)"
      by simp_all
    from "2.IH"(1) [OF True utf8Lead_pending rest]
    have z: "fst (snd (utf8Lead (unat b))) = 0" and tl: "list_all (\<lambda>b. unat b < 0x80) bs"
      by simp_all
    from out z have "unat b < 0x80" using utf8Lead_not_ascii by blast
    with True tl show ?thesis by simp
  next
    case False
    show ?thesis
    proof (cases "fst (snd (snd st)) \<le> unat b \<and> unat b \<le> snd (snd (snd st))")
      case outside: False
      with False "2.prems"(2) show ?thesis by simp
    next
      case inside: True
      obtain needed cp lo hi where st: "st = (needed, cp, lo, hi)" by (cases st) auto
      from False st have n0: "needed \<noteq> 0" by simp
      from inside st have lo: "lo \<le> unat b" by simp
      from "2.prems"(1) st n0 have ok: "128 \<le> (cp * 64 + (lo - 0x80)) * 64 ^ (needed - 1)"
        by (simp add: pendingOK_def)
      have ge: "cp * 64 + (lo - 0x80) \<le> cp * 64 + (unat b - 0x80)" using lo by simp
      from False inside "2.prems"(2)
      have out: "list_all (\<lambda>c. c < 0x80) (fst (utf8Cont st (unat b)))"
        and rest: "list_all (\<lambda>c. c < 0x80) (utf8Decode (snd (utf8Cont st (unat b))) bs)"
        by simp_all
      show ?thesis
      proof (cases "needed = 1")
        case True
        with ok ge have "128 \<le> cp * 64 + (unat b - 0x80)" by simp
        then have "\<not> list_all (\<lambda>c. c < 0x80) (utf16Units (cp * 64 + (unat b - 0x80)))"
          by (rule utf16Units_high)
        with out st True show ?thesis by (simp add: utf8Cont_def Let_def)
      next
        case more: False
        with n0 have n2: "2 \<le> needed" by simp
        have next_st: "snd (utf8Cont st (unat b)) = (needed - 1, cp * 64 + (unat b - 0x80), 0x80, 0xBF)"
          using st more by (simp add: utf8Cont_def Let_def)
        define X where "X = (64::nat) ^ (needed - 1 - 1)"
        define c where "c = cp * 64 + (unat b - 0x80)"
        from n2 have pow: "(64::nat) ^ (needed - 1) = 64 * X"
          unfolding X_def by (cases needed) (auto simp add: power_Suc [symmetric] simp del: power_Suc)
        have mono: "(cp * 64 + (lo - 0x80)) * 64 ^ (needed - 1) \<le> c * 64 ^ (needed - 1)"
          unfolding c_def using ge by (rule mult_le_mono1)
        from ok mono have "128 \<le> c * 64 ^ (needed - 1)"
          by (rule le_trans)
        then have "128 \<le> c * (64 * X)" by (simp only: pow)
        then have "128 \<le> (c * 64 + (0x80 - 0x80)) * X" by (simp add: mult.assoc)
        then have "needed - 1 = 0 \<or> 128 \<le> (c * 64 + (0x80 - 0x80)) * 64 ^ (needed - 1 - 1)"
          unfolding X_def by (rule disjI2)
        then have "pendingOK (needed - 1, c, 0x80, 0xBF)"
          by (simp only: pendingOK_def prod.case)
        then have "pendingOK (snd (utf8Cont st (unat b)))"
          by (simp only: next_st c_def)
        from "2.IH"(3) [OF False _ this rest] inside
        have "fst (snd (utf8Cont st (unat b))) = 0" by simp
        with next_st n2 show ?thesis by simp
      qed
    qed
  qed
qed

lemma bufferToString_ascii_iff:
  "list_all (\<lambda>c. c < 0x80) lit \<Longrightarrow> bufferToString bs = lit \<longleftrightarrow> map unat bs = lit"
proof
  assume a: "list_all (\<lambda>c. c < 0x80) lit" and eq: "bufferToString bs = lit"
  from a eq have "list_all (\<lambda>c. c < 0x80) (utf8Decode utf8Start bs)"
    by (simp add: bufferToString_def)
  then have "list_all (\<lambda>b. unat b < 0x80) bs"
    using utf8Decode_ascii_only [OF pendingOK_start] by blast
  then have "utf8Decode utf8Start bs = map unat bs" by (rule utf8Decode_ascii)
  with eq show "map unat bs = lit" by (simp add: bufferToString_def)
next
  assume a: "list_all (\<lambda>c. c < 0x80) lit" and eq: "map unat bs = lit"
  then have "list_all (\<lambda>b. unat b < 0x80) bs" by (auto simp add: list_all_iff)
  then have "utf8Decode utf8Start bs = map unat bs" by (rule utf8Decode_ascii)
  with eq show "bufferToString bs = lit" by (simp add: bufferToString_def)
qed


lemma magic4:
  "(bufferAt (bufferSlice 0 4 buffer) 0 = Some a \<and> bufferAt (bufferSlice 0 4 buffer) 1 = Some b
    \<and> bufferAt (bufferSlice 0 4 buffer) 2 = Some c \<and> bufferAt (bufferSlice 0 4 buffer) 3 = Some d)
   \<longleftrightarrow> take 4 buffer = [a, b, c, d]"
  by (cases buffer; cases "tl buffer"; cases "tl (tl buffer)"; cases "tl (tl (tl buffer))")
     (auto simp add: bufferAt_def bufferSlice_def)

lemma magic3:
  "(bufferAt (bufferSlice 0 4 buffer) 0 = Some a \<and> bufferAt (bufferSlice 0 4 buffer) 1 = Some b
    \<and> bufferAt (bufferSlice 0 4 buffer) 2 = Some c)
   \<longleftrightarrow> take 3 buffer = [a, b, c]"
  by (cases buffer; cases "tl buffer"; cases "tl (tl buffer)"; cases "tl (tl (tl buffer))")
     (auto simp add: bufferAt_def bufferSlice_def)

lemma map_unat_eq: "map unat (xs :: byte list) = map unat ys \<longleftrightarrow> xs = ys"
proof -
  have "inj (unat :: byte \<Rightarrow> nat)"
    by (rule injI) (simp add: word_unat_eq_iff)
  then show ?thesis by (rule inj_map_eq_map)
qed

lemma toString_WEBP:
  "bufferToString (bufferSlice 8 12 buffer) = str ''WEBP''
   \<longleftrightarrow> take 4 (drop 8 buffer) = [0x57, 0x45, 0x42, 0x50]"
proof -
  have "bufferToString (bufferSlice 8 12 buffer) = str ''WEBP''
      \<longleftrightarrow> map unat (bufferSlice 8 12 buffer) = str ''WEBP''"
    by (rule bufferToString_ascii_iff) simp
  also have "str ''WEBP'' = map unat [0x57, 0x45, 0x42, 0x50 :: byte]" by simp
  finally show ?thesis by (simp only: map_unat_eq) (simp add: bufferSlice_def)
qed

lemma toString_GIF:
  "bufferToString (bufferSlice 0 3 (bufferSlice 0 4 buffer)) = str ''GIF''
   \<longleftrightarrow> take 3 buffer = [0x47, 0x49, 0x46]"
proof -
  have "bufferToString (bufferSlice 0 3 (bufferSlice 0 4 buffer)) = str ''GIF''
      \<longleftrightarrow> map unat (bufferSlice 0 3 (bufferSlice 0 4 buffer)) = str ''GIF''"
    by (rule bufferToString_ascii_iff) simp
  also have "str ''GIF'' = map unat [0x47, 0x49, 0x46 :: byte]" by simp
  finally show ?thesis by (simp only: map_unat_eq) (simp add: bufferSlice_def)
qed

lemma checkImageBytes_format:
  "checkImageBytes filepath buffer =
    (if buffer = [] then Inl (Error (str ''Image file is empty: '' @ filepath))
     else if imageFormat buffer = None
     then Inl (Error (str ''File does not appear to be a valid image (PNG, JPEG, WebP, or GIF): ''
                      @ filepath))
     else Inr filepath)"
  unfolding checkImageBytes_def Let_def magic4 magic3 toString_WEBP toString_GIF imageFormat_def
  by simp


lemma validateImagePath_cases:
  "validateImagePath readFile filepath =
    (case readFile filepath of
       Inl error \<Rightarrow>
         if code error = Some (str ''ENOENT'')
         then Inl (Error (str ''Image file not found: '' @ filepath))
         else if code error = Some (str ''EACCES'')
         then Inl (Error (str ''Permission denied reading image file: '' @ filepath))
         else Inl error
     | Inr buffer \<Rightarrow>
         if buffer = [] then Inl (Error (str ''Image file is empty: '' @ filepath))
         else if imageFormat buffer = None
         then Inl (Error (str ''File does not appear to be a valid image (PNG, JPEG, WebP, or GIF): ''
                          @ filepath))
         else Inr filepath)"
  by (simp add: validateImagePath_def checkImageBytes_format Error_def split: sum.splits)

text \<open>
  Claim C5. \<open>validateImagePath\<close> returns the file path exactly when \<open>readFile\<close> gives
  a buffer that is not empty and carries one of the four signatures: PNG (bytes 0 to 3
  are 89 50 4E 47), JPEG (bytes 0 to 2 are FF D8 FF), GIF (bytes 0 to 2 are the ASCII
  codes of \<open>GIF\<close>) or WEBP (bytes 8 to 11 are the ASCII codes of \<open>WEBP\<close>). Its result
  in every case: the error of \<open>readFile\<close> becomes \<open>Image file not found\<close> for the code
  \<open>ENOENT\<close>, \<open>Permission denied reading image file\<close> for \<open>EACCES\<close>, and is thrown
  again otherwise; an empty buffer gives \<open>Image file is empty\<close>; a buffer of no
  recognised format gives \<open>File does not appear to be a valid image\<close>. The four
  messages are pairwise distinct.
\<close>

theorem validateImagePath_accepts_exactly_images:
  "(validateImagePath readFile filepath = Inr filepath
      \<longleftrightarrow> (\<exists>buffer. readFile filepath = Inr buffer \<and> buffer \<noteq> []
            \<and> (take 4 buffer = [0x89, 0x50, 0x4E, 0x47]
               \<or> take 3 buffer = [0xFF, 0xD8, 0xFF]
               \<or> map unat (take 3 buffer) = str ''GIF''
               \<or> map unat (take 4 (drop 8 buffer)) = str ''WEBP'')))
   \<and> (validateImagePath readFile filepath =
        (case readFile filepath of
           Inl error \<Rightarrow>
             if code error = Some (str ''ENOENT'')
             then Inl (Error (str ''Image file not found: '' @ filepath))
             else if code error = Some (str ''EACCES'')
             then Inl (Error (str ''Permission denied reading image file: '' @ filepath))
             else Inl error
         | Inr buffer \<Rightarrow>
             if buffer = [] then Inl (Error (str ''Image file is empty: '' @ filepath))
             else if imageFormat buffer = None
             then Inl (Error
                    (str ''File does not appear to be a valid image (PNG, JPEG, WebP, or GIF): ''
                     @ filepath))
             else Inr filepath))
   \<and> distinct
        [str ''Image file is empty: '' @ filepath,
         str ''Image file not found: '' @ filepath,
         str ''Permission denied reading image file: '' @ filepath,
         str ''File does not appear to be a valid image (PNG, JPEG, WebP, or GIF): '' @ filepath]"
proof (intro conjI)
  have gif: "map unat (take 3 buffer) = str ''GIF'' \<longleftrightarrow> take 3 buffer = [0x47, 0x49, 0x46]"
    for buffer :: "byte list"
  proof -
    have "str ''GIF'' = map unat [0x47, 0x49, 0x46 :: byte]" by simp
    then show ?thesis by (simp only: map_unat_eq)
  qed
  have webp: "map unat (take 4 (drop 8 buffer)) = str ''WEBP''
      \<longleftrightarrow> take 4 (drop 8 buffer) = [0x57, 0x45, 0x42, 0x50]"
    for buffer :: "byte list"
  proof -
    have "str ''WEBP'' = map unat [0x57, 0x45, 0x42, 0x50 :: byte]" by simp
    then show ?thesis by (simp only: map_unat_eq)
  qed
  show "validateImagePath readFile filepath = Inr filepath
      \<longleftrightarrow> (\<exists>buffer. readFile filepath = Inr buffer \<and> buffer \<noteq> []
            \<and> (take 4 buffer = [0x89, 0x50, 0x4E, 0x47]
               \<or> take 3 buffer = [0xFF, 0xD8, 0xFF]
               \<or> map unat (take 3 buffer) = str ''GIF''
               \<or> map unat (take 4 (drop 8 buffer)) = str ''WEBP''))"
    unfolding gif webp
    by (auto simp add: validateImagePath_cases imageFormat_def split: sum.splits if_splits)
  show "validateImagePath readFile filepath =
        (case readFile filepath of
           Inl error \<Rightarrow>
             if code error = Some (str ''ENOENT'')
             then Inl (Error (str ''Image file not found: '' @ filepath))
             else if code error = Some (str ''EACCES'')
             then Inl (Error (str ''Permission denied reading image file: '' @ filepath))
             else Inl error
         | Inr buffer \<Rightarrow>
             if buffer = [] then Inl (Error (str ''Image file is empty: '' @ filepath))
             else if imageFormat buffer = None
             then Inl (Error
                    (str ''File does not appear to be a valid image (PNG, JPEG, WebP, or GIF): ''
                     @ filepath))
             else Inr filepath)"
    by (rule validateImagePath_cases)
  show "distinct
        [str ''Image file is empty: '' @ filepath,
         str ''Image file not found: '' @ filepath,
         str ''Permission denied reading image file: '' @ filepath,
         str ''File does not appear to be a valid image (PNG, JPEG, WebP, or GIF): '' @ filepath]"
    by simp
qed

text \<open>
  The theorem at the files of the test suite: the eight bytes of a PNG header are
  accepted, and a path that does not exist is reported as not found.
\<close>

theorem validateImagePath_accepts_exactly_images_witness:
  "validateImagePath (\<lambda>path. Inr [0x89, 0x50, 0x4E, 0x47, 0x0D, 0x0A, 0x1A, 0x0A])
     (str ''test-image.png'') = Inr (str ''test-image.png'')
   \<and> validateImagePath
       (\<lambda>path. Inl \<lparr>code = Some (str ''ENOENT''), message = Some (str ''no such file'')\<rparr>)
       (str ''nonexistent.jpg'')
     = Inl (Error (str ''Image file not found: nonexistent.jpg''))"
proof -
  have a: "validateImagePath (\<lambda>path. Inr [0x89, 0x50, 0x4E, 0x47, 0x0D, 0x0A, 0x1A, 0x0A])
     (str ''test-image.png'') = Inr (str ''test-image.png'')"
    using validateImagePath_accepts_exactly_images
      [of "\<lambda>path. Inr [0x89, 0x50, 0x4E, 0x47, 0x0D, 0x0A, 0x1A, 0x0A]" "str ''test-image.png''"]
    by simp
  have b: "validateImagePath
       (\<lambda>path. Inl \<lparr>code = Some (str ''ENOENT''), message = Some (str ''no such file'')\<rparr>)
       (str ''nonexistent.jpg'')
     = Inl (Error (str ''Image file not found: nonexistent.jpg''))"
    using validateImagePath_accepts_exactly_images
      [of "\<lambda>path. Inl \<lparr>code = Some (str ''ENOENT''), message = Some (str ''no such file'')\<rparr>"
          "str ''nonexistent.jpg''"]
    by simp
  from a b show ?thesis by blast
qed

lemma imageFormat_take12: "imageFormat (take 12 buffer) = imageFormat buffer"
  by (simp add: imageFormat_def take_drop min_def)

text \<open>
  Claim C10, as the code has it. The check never fails on a buffer that is not empty.
  A buffer shorter than 12 bytes is accepted when its leading bytes are the PNG, the
  JPEG or the GIF signature, and rejected as not a valid image otherwise. Only the
  bytes 0 to 11 are read: two buffers that agree on them get the same result. A buffer
  whose bytes 8 to 11 are the ASCII codes of \<open>WEBP\<close> is accepted, whatever its other
  bytes.
\<close>

theorem validateImagePath_short_and_webp:
  "(readFile filepath = Inr buffer \<and> buffer \<noteq> [] \<and> length buffer < 12 \<longrightarrow>
      validateImagePath readFile filepath =
        (if take 4 buffer = [0x89, 0x50, 0x4E, 0x47] \<or> take 3 buffer = [0xFF, 0xD8, 0xFF]
            \<or> take 3 buffer = [0x47, 0x49, 0x46]
         then Inr filepath
         else Inl (Error
                (str ''File does not appear to be a valid image (PNG, JPEG, WebP, or GIF): ''
                 @ filepath))))
   \<and> (readFile filepath = Inr buffer \<and> readFile' filepath = Inr buffer' \<and> buffer \<noteq> []
        \<and> take 12 buffer = take 12 buffer' \<longrightarrow>
      validateImagePath readFile filepath = validateImagePath readFile' filepath)
   \<and> (readFile filepath = Inr buffer \<and> take 4 (drop 8 buffer) = [0x57, 0x45, 0x42, 0x50] \<longrightarrow>
      validateImagePath readFile filepath = Inr filepath)"
proof (intro conjI impI)
  assume a: "readFile filepath = Inr buffer \<and> buffer \<noteq> [] \<and> length buffer < 12"
  then have "take 4 (drop 8 buffer) \<noteq> [0x57, 0x45, 0x42, 0x50]"
    by (auto dest!: arg_cong [where f = length])
  with a show "validateImagePath readFile filepath =
        (if take 4 buffer = [0x89, 0x50, 0x4E, 0x47] \<or> take 3 buffer = [0xFF, 0xD8, 0xFF]
            \<or> take 3 buffer = [0x47, 0x49, 0x46]
         then Inr filepath
         else Inl (Error
                (str ''File does not appear to be a valid image (PNG, JPEG, WebP, or GIF): ''
                 @ filepath)))"
    by (simp add: validateImagePath_cases imageFormat_def)
next
  assume a: "readFile filepath = Inr buffer \<and> readFile' filepath = Inr buffer' \<and> buffer \<noteq> []
        \<and> take 12 buffer = take 12 buffer'"
  then have "imageFormat buffer = imageFormat buffer'"
    using imageFormat_take12 [of buffer] imageFormat_take12 [of buffer'] by simp
  moreover from a have "buffer' \<noteq> []" by auto
  ultimately show "validateImagePath readFile filepath = validateImagePath readFile' filepath"
    using a by (simp add: validateImagePath_cases)
next
  assume a: "readFile filepath = Inr buffer \<and> take 4 (drop 8 buffer) = [0x57, 0x45, 0x42, 0x50]"
  then have "buffer \<noteq> []" by auto
  with a show "validateImagePath readFile filepath = Inr filepath"
    by (simp add: validateImagePath_cases imageFormat_def)
qed

text \<open>
  The theorem at concrete buffers: the four bytes of a JPEG header are accepted, ten
  bytes of text are rejected, bytes after the twelfth do not matter, and \<open>WEBP\<close> at
  offset 8 is enough.
\<close>

theorem validateImagePath_short_and_webp_witness:
  "validateImagePath (\<lambda>path. Inr [0xFF, 0xD8, 0xFF, 0xE0]) (str ''test-image.jpg'')
     = Inr (str ''test-image.jpg'')
   \<and> validateImagePath (\<lambda>path. Inr (map of_nat (str ''plain text''))) (str ''invalid.txt'')
     = Inl (Error (str ''File does not appear to be a valid image (PNG, JPEG, WebP, or GIF): invalid.txt''))
   \<and> validateImagePath (\<lambda>path. Inr (map of_nat (str ''RIFF....WEBPVP8 ''))) (str ''a.webp'')
     = validateImagePath (\<lambda>path. Inr (map of_nat (str ''RIFF....WEBP''))) (str ''a.webp'')
   \<and> validateImagePath (\<lambda>path. Inr (map of_nat (str ''xxxxxxxxWEBP''))) (str ''a.webp'')
     = Inr (str ''a.webp'')"
proof -
  have a: "validateImagePath (\<lambda>path. Inr [0xFF, 0xD8, 0xFF, 0xE0]) (str ''test-image.jpg'')
     = Inr (str ''test-image.jpg'')"
    using validateImagePath_short_and_webp
      [of "\<lambda>path. Inr [0xFF, 0xD8, 0xFF, 0xE0]" "str ''test-image.jpg''" "[0xFF, 0xD8, 0xFF, 0xE0]"]
    by simp
  have b: "validateImagePath (\<lambda>path. Inr (map of_nat (str ''plain text''))) (str ''invalid.txt'')
     = Inl (Error (str ''File does not appear to be a valid image (PNG, JPEG, WebP, or GIF): invalid.txt''))"
    using validateImagePath_short_and_webp
      [of "\<lambda>path. Inr (map of_nat (str ''plain text''))" "str ''invalid.txt''"
          "map of_nat (str ''plain text'')"]
    by simp
  have c: "validateImagePath (\<lambda>path. Inr (map of_nat (str ''RIFF....WEBPVP8 ''))) (str ''a.webp'')
     = validateImagePath (\<lambda>path. Inr (map of_nat (str ''RIFF....WEBP''))) (str ''a.webp'')"
    using validateImagePath_short_and_webp
      [of "\<lambda>path. Inr (map of_nat (str ''RIFF....WEBPVP8 ''))" "str ''a.webp''"
          "map of_nat (str ''RIFF....WEBPVP8 '')" "\<lambda>path. Inr (map of_nat (str ''RIFF....WEBP''))"
          "map of_nat (str ''RIFF....WEBP'')"]
    by simp
  have d: "validateImagePath (\<lambda>path. Inr (map of_nat (str ''xxxxxxxxWEBP''))) (str ''a.webp'')
     = Inr (str ''a.webp'')"
    using validateImagePath_short_and_webp
      [of "\<lambda>path. Inr (map of_nat (str ''xxxxxxxxWEBP''))" "str ''a.webp''"
          "map of_nat (str ''xxxxxxxxWEBP'')"]
    by simp
  from a b c d show ?thesis by blast
qed

text \<open>
  Claim C10 as it is stated lets a buffer shorter than 12 bytes pass only on the JPEG
  or the GIF signature. The eight bytes of a PNG header, the file of the test suite,
  are shorter than 12 bytes, carry neither signature, and are accepted.
\<close>

theorem validateImagePath_short_png_counterexample:
  "length [0x89, 0x50, 0x4E, 0x47, 0x0D, 0x0A, 0x1A, 0x0A :: byte] < 12
   \<and> take 3 [0x89, 0x50, 0x4E, 0x47, 0x0D, 0x0A, 0x1A, 0x0A :: byte] \<noteq> [0xFF, 0xD8, 0xFF]
   \<and> take 3 [0x89, 0x50, 0x4E, 0x47, 0x0D, 0x0A, 0x1A, 0x0A :: byte] \<noteq> [0x47, 0x49, 0x46]
   \<and> validateImagePath (\<lambda>path. Inr [0x89, 0x50, 0x4E, 0x47, 0x0D, 0x0A, 0x1A, 0x0A])
        (str ''test-image.png'') = Inr (str ''test-image.png'')"
  by (simp add: validateImagePath_cases imageFormat_def)

section \<open>The dimension validator\<close>

lemma readNat_append: "readNat acc (xs @ ys) = readNat (readNat acc xs) ys"
  by (induction xs arbitrary: acc) simp_all

lemma readNat_showNat: "readNat 0 (showNat n) = n"
proof (induction n rule: showNat.induct)
  case (1 n)
  show ?case
  proof (cases "n < 10")
    case True
    then show ?thesis by (simp add: showNat.simps [of n])
  next
    case False
    with 1 have "readNat 0 (showNat (n div 10)) = n div 10" by simp
    with False show ?thesis by (simp add: showNat.simps [of n] readNat_append)
  qed
qed

lemma showNat_inj: "showNat m = showNat n \<Longrightarrow> m = n"
  by (metis readNat_showNat)

lemma showNat_digits: "list_all isDigit (showNat n)"
proof (induction n rule: showNat.induct)
  case (1 n)
  show ?case
  proof (cases "n < 10")
    case True
    then show ?thesis by (simp add: showNat.simps [of n] isDigit_def)
  next
    case False
    with 1 have "list_all isDigit (showNat (n div 10))" by simp
    moreover have "n mod 10 < 10" by simp
    then have "isDigit (ch CHR ''0'' + n mod 10)" by (simp add: isDigit_def)
    ultimately show ?thesis using False by (simp add: showNat.simps [of n])
  qed
qed

lemma takeWhile_digits: "list_all isDigit a \<Longrightarrow> \<not> isDigit c \<Longrightarrow> takeWhile isDigit (a @ c # b) = a"
  by (induction a) simp_all

lemma dimensions_of_message:
  assumes "showNat w @ str ''x'' @ showNat h = showNat w' @ str ''x'' @ showNat h'"
  shows "w = w' \<and> h = h'"
proof -
  have nd: "\<not> isDigit (ch CHR ''x'')" by (simp add: isDigit_def)
  have "takeWhile isDigit (showNat w @ ch CHR ''x'' # showNat h) = showNat w"
    using showNat_digits nd by (rule takeWhile_digits)
  moreover have "takeWhile isDigit (showNat w' @ ch CHR ''x'' # showNat h') = showNat w'"
    using showNat_digits nd by (rule takeWhile_digits)
  ultimately have eq: "showNat w = showNat w'" using assms by simp
  with assms have "showNat h = showNat h'" by simp
  with eq show ?thesis by (simp add: showNat_inj)
qed

text \<open>
  Claim C8. For a buffer and for a path alike, \<open>assertSquareImage\<close> returns without
  error exactly when the decoder gives dimensions whose width equals the height. For
  other dimensions it fails with \<open>Image must be square. Received WxH\<close>, a message that
  determines the width and the height. Whatever the decoder throws becomes one error,
  \<open>Unable to read image dimensions:\<close> followed by the message of the cause.
\<close>

theorem assertSquareImage_square_only:
  "(assertSquareImage dec imageSource = Inr ()
      \<longleftrightarrow> (\<exists>dims. readDimensions dec imageSource = Inr dims \<and> width dims = height dims))
   \<and> readDimensions dec (BufferSource buffer) = imageSize dec buffer
   \<and> readDimensions dec (PathSource path) = imageSizeFromFile dec path
   \<and> (readDimensions dec imageSource = Inr dims \<and> width dims \<noteq> height dims \<longrightarrow>
        assertSquareImage dec imageSource =
          Inl (Error (str ''Image must be square. Received '' @ showNat (width dims)
                      @ str ''x'' @ showNat (height dims))))
   \<and> (str ''Image must be square. Received '' @ showNat w @ str ''x'' @ showNat h
        = str ''Image must be square. Received '' @ showNat w' @ str ''x'' @ showNat h'
      \<longrightarrow> (w, h) = (w', h'))
   \<and> (readDimensions dec imageSource = Inl error \<longrightarrow>
        assertSquareImage dec imageSource =
          Inl (Error (str ''Unable to read image dimensions: '' @ template (message error))))"
proof (intro conjI impI)
  show "assertSquareImage dec imageSource = Inr ()
      \<longleftrightarrow> (\<exists>dims. readDimensions dec imageSource = Inr dims \<and> width dims = height dims)"
    by (auto simp add: assertSquareImage_def split: sum.splits)
  show "readDimensions dec (BufferSource buffer) = imageSize dec buffer"
    by (simp add: readDimensions_def)
  show "readDimensions dec (PathSource path) = imageSizeFromFile dec path"
    by (simp add: readDimensions_def)
next
  assume "readDimensions dec imageSource = Inr dims \<and> width dims \<noteq> height dims"
  then show "assertSquareImage dec imageSource =
          Inl (Error (str ''Image must be square. Received '' @ showNat (width dims)
                      @ str ''x'' @ showNat (height dims)))"
    by (simp add: assertSquareImage_def)
next
  assume "str ''Image must be square. Received '' @ showNat w @ str ''x'' @ showNat h
        = str ''Image must be square. Received '' @ showNat w' @ str ''x'' @ showNat h'"
  then have "showNat w @ str ''x'' @ showNat h = showNat w' @ str ''x'' @ showNat h'"
    by simp
  then have "w = w' \<and> h = h'" by (rule dimensions_of_message)
  then show "(w, h) = (w', h')" by simp
next
  assume "readDimensions dec imageSource = Inl error"
  then show "assertSquareImage dec imageSource =
          Inl (Error (str ''Unable to read image dimensions: '' @ template (message error)))"
    by (simp add: assertSquareImage_def)
qed

lemma showNat_4: "showNat 4 = str ''4''" by (simp add: showNat.simps [of 4])
lemma showNat_2: "showNat 2 = str ''2''" by (simp add: showNat.simps [of 2])

text \<open>
  The theorem at the images of the test suite: 4 by 4 is accepted, 4 by 2 is rejected
  with its dimensions, and a decoder that throws is reported with its message.
\<close>

theorem assertSquareImage_square_only_witness:
  "assertSquareImage
     \<lparr>imageSize = (\<lambda>b. Inr \<lparr>width = 4, height = 4\<rparr>),
      imageSizeFromFile = (\<lambda>p. Inr \<lparr>width = 4, height = 2\<rparr>)\<rparr> (BufferSource []) = Inr ()
   \<and> assertSquareImage
     \<lparr>imageSize = (\<lambda>b. Inr \<lparr>width = 4, height = 4\<rparr>),
      imageSizeFromFile = (\<lambda>p. Inr \<lparr>width = 4, height = 2\<rparr>)\<rparr> (PathSource (str ''rectangle.bmp''))
     = Inl (Error (str ''Image must be square. Received 4x2''))
   \<and> assertSquareImage
     \<lparr>imageSize = (\<lambda>b. Inl (Error (str ''unsupported file type''))),
      imageSizeFromFile = (\<lambda>p. Inr \<lparr>width = 4, height = 2\<rparr>)\<rparr> (BufferSource [])
     = Inl (Error (str ''Unable to read image dimensions: unsupported file type''))"
proof -
  let ?d = "\<lparr>imageSize = (\<lambda>b. Inr \<lparr>width = 4, height = 4\<rparr>),
      imageSizeFromFile = (\<lambda>p. Inr \<lparr>width = 4, height = 2\<rparr>)\<rparr>"
  let ?e = "\<lparr>imageSize = (\<lambda>b. Inl (Error (str ''unsupported file type''))),
      imageSizeFromFile = (\<lambda>p. Inr \<lparr>width = 4, height = 2\<rparr>)\<rparr>"
  have a: "assertSquareImage ?d (BufferSource []) = Inr ()"
    using assertSquareImage_square_only [of ?d "BufferSource []" "[]"]
    by (simp add: readDimensions_def)
  have b: "assertSquareImage ?d (PathSource (str ''rectangle.bmp''))
      = Inl (Error (str ''Image must be square. Received 4x2''))"
    using assertSquareImage_square_only
      [of ?d "PathSource (str ''rectangle.bmp'')" "[]" "str ''rectangle.bmp''" "\<lparr>width = 4, height = 2\<rparr>"]
    by (simp add: readDimensions_def showNat_4 showNat_2)
  have c: "assertSquareImage ?e (BufferSource [])
      = Inl (Error (str ''Unable to read image dimensions: unsupported file type''))"
    using assertSquareImage_square_only
      [of ?e "BufferSource []" "[]" "[]" dims w h w' h' "Error (str ''unsupported file type'')"]
    by (simp add: readDimensions_def Error_def template_def)
  from a b c show ?thesis by blast
qed

section \<open>The file name sanitizer\<close>




































section \<open>The URL validator\<close>

text \<open>
  The order of the stages. The pattern can only match at an opening bracket. An error
  of the scan is the result, whatever the parser, the protocol and the resolver would
  say; the leftmost literal decides the scan; without an error of the scan, a string
  that does not parse is an invalid URL, and a protocol other than \<open>https:\<close> is
  refused after the parse.
\<close>

lemma matchMappedAt_bracket: "matchMappedAt (c # cs) = Some q \<Longrightarrow> c = ch CHR ''[''"
  by (auto simp add: matchMappedAt_def canonicalize_def split: if_splits)

lemma matchMapped_no_bracket: "ch CHR ''['' \<notin> set u \<Longrightarrow> matchMapped u = None"
proof (induction u)
  case Nil
  show ?case by simp
next
  case (Cons c cs)
  then have "c \<noteq> ch CHR ''[''" and rest: "matchMapped cs = None" by auto
  then have "matchMappedAt (c # cs) = None"
    using matchMappedAt_bracket [of c cs] by (cases "matchMappedAt (c # cs)") auto
  with rest show ?case by simp
qed

lemma preParseScan_no_bracket: "ch CHR ''['' \<notin> set u \<Longrightarrow> preParseScan u = None"
  by (simp add: preParseScan_def matchMapped_no_bracket)

lemma validateImageUrl_scan_first:
  "preParseScan u = Some e \<Longrightarrow> validateImageUrl rt u = ([], Inl e)"
  by (simp add: validateImageUrl_def)

lemma preParseScan_leftmost:
  "matchMapped u = Some q \<Longrightarrow> blockedQuad q \<Longrightarrow>
    preParseScan u =
      Some (Error (if startsWith q (str ''127.'') then str ''Access to localhost is not allowed''
                   else str ''Access to internal/private IP addresses is not allowed''))"
  by (auto simp add: preParseScan_def blockedQuad_def startsWith_def)

lemma validateImageUrl_unparseable:
  "preParseScan u = None \<Longrightarrow> urlParse rt u = None \<Longrightarrow>
    validateImageUrl rt u = ([], Inl (Error (str ''Invalid URL: '' @ u)))"
  by (simp add: validateImageUrl_def)

lemma validateImageUrl_not_https:
  "preParseScan u = None \<Longrightarrow> urlParse rt u = Some parsed \<Longrightarrow> protocol parsed \<noteq> str ''https:''
    \<Longrightarrow> validateImageUrl rt u
      = ([], Inl (Error (str ''Only HTTPS URLs are allowed for security reasons'')))"
  by (simp add: validateImageUrl_def)

lemma decoy_scan: "preParseScan (str ''https://[::ffff:8.8.8.8]@[::ffff:127.0.0.1]/x'') = None"
  by code_simp

lemma decoy_contains: "containsBlockedMapped (str ''https://[::ffff:8.8.8.8]@[::ffff:127.0.0.1]/x'')"
  by code_simp

lemma ula_scan: "preParseScan (str ''https://[fd12:3456:789a::1]/x'') = None"
  by code_simp


text \<open>The validator at the strings of the example runtime.\<close>

lemmas sample_eval =
  validateImageUrl_def sampleRuntime_def preParseScan_no_bracket toLowerCase_def lowerUnit_def
  stripBrackets_def isBlockedIP_def blockedPatterns_def privateClassB_def startsWith_def
  dnsCatch_def Error_def template_def

lemma sample_example:
  "validateImageUrl sampleRuntime (str ''https://example.com/image.jpg'')
    = ([str ''example.com''], Inr (str ''https://example.com/image.jpg''))"
  by (simp add: sample_eval)

lemma sample_http:
  "validateImageUrl sampleRuntime (str ''http://example.com/image.jpg'')
    = ([], Inl (Error (str ''Only HTTPS URLs are allowed for security reasons'')))"
  by (simp add: sample_eval)

lemma sample_localhost:
  "validateImageUrl sampleRuntime (str ''https://localhost/image.jpg'')
    = ([], Inl (Error (str ''Access to cloud metadata endpoints is not allowed'')))"
  by (simp add: sample_eval)

lemma sample_private:
  "validateImageUrl sampleRuntime (str ''https://10.0.0.1/image.jpg'')
    = ([], Inl (Error (str ''Access to internal/private IP addresses is not allowed'')))"
  by (simp add: sample_eval)

lemma sample_evil:
  "validateImageUrl sampleRuntime (str ''https://evil.com/image.jpg'')
    = ([str ''evil.com''],
       Inl (Error (str ''Domain evil.com resolves to internal/private IP address'')))"
  by (simp add: sample_eval)

lemma sample_nonexistent:
  "validateImageUrl sampleRuntime (str ''https://nonexistent.domain.invalid/image.jpg'')
    = ([str ''nonexistent.domain.invalid''],
       Inl (Error (str ''Domain nonexistent.domain.invalid could not be resolved'')))"
  by (simp add: sample_eval)

lemma sample_timeout:
  "validateImageUrl sampleRuntime (str ''https://timeout.example.com/image.jpg'')
    = ([str ''timeout.example.com''],
       Inl (Error (str ''Failed to validate domain timeout.example.com: ETIMEDOUT'')))"
  by (simp add: sample_eval)

lemma sample_decoy:
  "validateImageUrl sampleRuntime (str ''https://[::ffff:8.8.8.8]@[::ffff:127.0.0.1]/x'')
    = ([], Inr (str ''https://[::ffff:8.8.8.8]@[::ffff:127.0.0.1]/x''))"
  by (simp add: sample_eval decoy_scan [simplified])

lemma sample_ula:
  "validateImageUrl sampleRuntime (str ''https://[fd12:3456:789a::1]/x'')
    = ([], Inr (str ''https://[fd12:3456:789a::1]/x''))"
  by (simp add: sample_eval ula_scan [simplified])

lemma sample_unparseable:
  "validateImageUrl sampleRuntime (str ''not-a-url'')
    = ([], Inl (Error (str ''Invalid URL: not-a-url'')))"
  by (simp add: sample_eval)


lemma includes_resolves:
  "str_includes (str ''Domain '' @ host @ str '' resolves to internal/private IP address'')
     (str ''resolves to internal'')"
  using str_includes_append
    [of "str ''Domain '' @ host @ str '' ''" "str ''resolves to internal''" "str ''/private IP address''"]
  by simp

lemma dnsCatch_blocked:
  "dnsCatch host (Error (str ''Domain '' @ host @ str '' resolves to internal/private IP address''))
    = Error (str ''Domain '' @ host @ str '' resolves to internal/private IP address'')"
  using includes_resolves [of host] by (simp add: dnsCatch_def Error_def)

text \<open>
  Claim C3, as the code has it. Take an https URL that passes the scan of the raw
  string and whose host name is none of \<open>localhost\<close>, \<open>metadata.google.internal\<close> and
  \<open>metadata\<close> and no literal IPv4 or IPv6 address. The validator resolves the host
  name exactly once. A blocked address gives \<open>Domain H resolves to internal/private IP
  address\<close>; a public address gives back the URL string unchanged; a failure with the
  code \<open>ENOTFOUND\<close> gives \<open>Domain H could not be resolved\<close>; any other failure gives
  \<open>Failed to validate domain H:\<close> followed by its message, unless that message itself
  holds \<open>resolves to internal\<close>, in which case the failure is thrown again as it is.
\<close>

theorem validateImageUrl_domain_branch:
  "preParseScan u = None \<and> urlParse rt u = Some parsed \<and> protocol parsed = str ''https:''
   \<and> host = toLowerCase (hostname parsed)
   \<and> stripBrackets host
        \<notin> set [str ''localhost'', str ''metadata.google.internal'', str ''metadata'']
   \<and> \<not> isIPv4 rt (stripBrackets host) \<and> \<not> isIPv6 rt (stripBrackets host)
   \<longrightarrow>
     fst (validateImageUrl rt u) = [host]
     \<and> snd (validateImageUrl rt u) =
         (case lookup rt host of
            Inr address \<Rightarrow>
              if isBlockedIP address
              then Inl (Error (str ''Domain '' @ host
                               @ str '' resolves to internal/private IP address''))
              else Inr u
          | Inl error \<Rightarrow>
              if code error = Some (str ''ENOTFOUND'')
              then Inl (Error (str ''Domain '' @ host @ str '' could not be resolved''))
              else if (case message error of
                         None \<Rightarrow> False
                       | Some m \<Rightarrow> str_includes m (str ''resolves to internal''))
              then Inl error
              else Inl (Error (str ''Failed to validate domain '' @ host @ str '': ''
                               @ template (message error))))"
proof (intro impI)
  assume a: "preParseScan u = None \<and> urlParse rt u = Some parsed \<and> protocol parsed = str ''https:''
   \<and> host = toLowerCase (hostname parsed)
   \<and> stripBrackets host
        \<notin> set [str ''localhost'', str ''metadata.google.internal'', str ''metadata'']
   \<and> \<not> isIPv4 rt (stripBrackets host) \<and> \<not> isIPv6 rt (stripBrackets host)"
  have empty: "\<not> str_includes [] (str ''resolves to internal'')" by simp
  from a have v: "validateImageUrl rt u =
      ([host],
       (case lookup rt host of
          Inl error \<Rightarrow> Inl (dnsCatch host error)
        | Inr address \<Rightarrow>
            if isBlockedIP address
            then Inl (dnsCatch host (Error
                   (str ''Domain '' @ host @ str '' resolves to internal/private IP address'')))
            else Inr u))"
  proof -
    from a have h: "host = toLowerCase (hostname parsed)" by simp
    from a show ?thesis unfolding h by (simp add: validateImageUrl_def Let_def)
  qed
  show "fst (validateImageUrl rt u) = [host]
     \<and> snd (validateImageUrl rt u) =
         (case lookup rt host of
            Inr address \<Rightarrow>
              if isBlockedIP address
              then Inl (Error (str ''Domain '' @ host
                               @ str '' resolves to internal/private IP address''))
              else Inr u
          | Inl error \<Rightarrow>
              if code error = Some (str ''ENOTFOUND'')
              then Inl (Error (str ''Domain '' @ host @ str '' could not be resolved''))
              else if (case message error of
                         None \<Rightarrow> False
                       | Some m \<Rightarrow> str_includes m (str ''resolves to internal''))
              then Inl error
              else Inl (Error (str ''Failed to validate domain '' @ host @ str '': ''
                               @ template (message error))))"
    unfolding v dnsCatch_blocked
    using empty by (auto simp add: dnsCatch_def split: sum.splits option.splits)
qed

text \<open>
  The theorem at four domains of the test suite: one resolving to a public address, one
  to the loopback address, one that does not exist, and one whose lookup times out.
\<close>

theorem validateImageUrl_domain_branch_witness:
  "validateImageUrl sampleRuntime (str ''https://example.com/image.jpg'')
     = ([str ''example.com''], Inr (str ''https://example.com/image.jpg''))
   \<and> validateImageUrl sampleRuntime (str ''https://evil.com/image.jpg'')
     = ([str ''evil.com''],
        Inl (Error (str ''Domain evil.com resolves to internal/private IP address'')))
   \<and> validateImageUrl sampleRuntime (str ''https://nonexistent.domain.invalid/image.jpg'')
     = ([str ''nonexistent.domain.invalid''],
        Inl (Error (str ''Domain nonexistent.domain.invalid could not be resolved'')))
   \<and> validateImageUrl sampleRuntime (str ''https://timeout.example.com/image.jpg'')
     = ([str ''timeout.example.com''],
        Inl (Error (str ''Failed to validate domain timeout.example.com: ETIMEDOUT'')))"
proof -
  have a: "validateImageUrl sampleRuntime (str ''https://example.com/image.jpg'')
     = ([str ''example.com''], Inr (str ''https://example.com/image.jpg''))"
    using validateImageUrl_domain_branch
      [of "str ''https://example.com/image.jpg''" sampleRuntime
          "\<lparr>protocol = str ''https:'', hostname = str ''example.com''\<rparr>" "str ''example.com''"]
    by (simp add: prod_eq_iff sampleRuntime_def preParseScan_no_bracket toLowerCase_def
        lowerUnit_def stripBrackets_def isBlockedIP_def blockedPatterns_def privateClassB_def
        startsWith_def)
  have b: "validateImageUrl sampleRuntime (str ''https://evil.com/image.jpg'')
     = ([str ''evil.com''],
        Inl (Error (str ''Domain evil.com resolves to internal/private IP address'')))"
    using validateImageUrl_domain_branch
      [of "str ''https://evil.com/image.jpg''" sampleRuntime
          "\<lparr>protocol = str ''https:'', hostname = str ''evil.com''\<rparr>" "str ''evil.com''"]
    by (simp add: prod_eq_iff sampleRuntime_def preParseScan_no_bracket toLowerCase_def
        lowerUnit_def stripBrackets_def isBlockedIP_def)
  have c: "validateImageUrl sampleRuntime (str ''https://nonexistent.domain.invalid/image.jpg'')
     = ([str ''nonexistent.domain.invalid''],
        Inl (Error (str ''Domain nonexistent.domain.invalid could not be resolved'')))"
    using validateImageUrl_domain_branch
      [of "str ''https://nonexistent.domain.invalid/image.jpg''" sampleRuntime
          "\<lparr>protocol = str ''https:'', hostname = str ''nonexistent.domain.invalid''\<rparr>"
          "str ''nonexistent.domain.invalid''"]
    by (simp add: prod_eq_iff sampleRuntime_def preParseScan_no_bracket toLowerCase_def
        lowerUnit_def stripBrackets_def)
  have d: "validateImageUrl sampleRuntime (str ''https://timeout.example.com/image.jpg'')
     = ([str ''timeout.example.com''],
        Inl (Error (str ''Failed to validate domain timeout.example.com: ETIMEDOUT'')))"
    using validateImageUrl_domain_branch
      [of "str ''https://timeout.example.com/image.jpg''" sampleRuntime
          "\<lparr>protocol = str ''https:'', hostname = str ''timeout.example.com''\<rparr>"
          "str ''timeout.example.com''"]
    by (simp add: prod_eq_iff sampleRuntime_def preParseScan_no_bracket toLowerCase_def
        lowerUnit_def stripBrackets_def template_def startsWith_def)
  from a b c d show ?thesis by (intro conjI)
qed

text \<open>
  Claim C3 as it is stated covers every https URL whose host name is a domain. The host
  name \<open>localhost\<close> is a domain and no address literal, and it is refused before any
  resolution: no lookup is made, and the error is the one of the blocked host names.
\<close>

theorem validateImageUrl_localhost_no_lookup_counterexample:
  "httpsDomainUrl sampleRuntime (str ''https://localhost/image.jpg'')
   \<and> fst (validateImageUrl sampleRuntime (str ''https://localhost/image.jpg'')) = []
   \<and> snd (validateImageUrl sampleRuntime (str ''https://localhost/image.jpg''))
       = Inl (Error (str ''Access to cloud metadata endpoints is not allowed''))"
proof -
  have "httpsDomainUrl sampleRuntime (str ''https://localhost/image.jpg'')"
    by (simp add: httpsDomainUrl_def sampleRuntime_def toLowerCase_def lowerUnit_def
        stripBrackets_def)
  then show ?thesis unfolding sample_localhost by simp
qed









text \<open>
  Claim C1 at a string with two mapped literals. The scan reads the leftmost literal
  only. Here it is the public \<open>8.8.8.8\<close>, in the user information; the host is the
  mapped loopback address. The string holds a blocked mapped literal, the scan raises no
  error, and the validator returns the URL.
\<close>

theorem validateImageUrl_second_literal_unchecked:
  "containsBlockedMapped (str ''https://[::ffff:8.8.8.8]@[::ffff:127.0.0.1]/x'')
   \<and> preParseScan (str ''https://[::ffff:8.8.8.8]@[::ffff:127.0.0.1]/x'') = None
   \<and> validateImageUrl sampleRuntime (str ''https://[::ffff:8.8.8.8]@[::ffff:127.0.0.1]/x'')
       = ([], Inr (str ''https://[::ffff:8.8.8.8]@[::ffff:127.0.0.1]/x''))"
  using decoy_contains decoy_scan sample_decoy by (intro conjI)

text \<open>
  Two addresses of the blocks \<open>fc00::/7\<close> and \<open>fe80::/10\<close> whose text does not start
  with \<open>fc00:\<close>, \<open>fd00:\<close> or \<open>fe80:\<close>.
\<close>

lemma ula_not_blocked: "\<not> isBlockedIP (str ''fd12:3456:789a::1'')"
  by (simp add: isBlockedIP_def stripBrackets_def blockedPatterns_def privateClassB_def
      startsWith_def)

lemma link_local_not_blocked: "\<not> isBlockedIP (str ''fe90::1'')"
  by (simp add: isBlockedIP_def stripBrackets_def blockedPatterns_def privateClassB_def
      startsWith_def)

lemma ula_in_blocks:
  "inPrefix 0xfc00 7 (str ''fd12:3456:789a::1'') \<and> inPrefix 0xfd00 8 (str ''fd12:3456:789a::1'')
   \<and> inPrefix 0xfe80 10 (str ''fe90::1'')"
  by (simp add: inPrefix_def firstHextet_def hexDigit_def isDigit_def)

text \<open>
  Claim C2 at addresses inside the IPv6 blocks. \<open>fd12:3456:789a::1\<close> lies in
  \<open>fc00::/7\<close> and in \<open>fd00::/8\<close>, and \<open>fe90::1\<close> lies in \<open>fe80::/10\<close>; the classifier
  says of neither that it is blocked, and the validator returns the https URL whose host
  is the first.
\<close>

theorem isBlockedIP_misses_ipv6_blocks:
  "inPrefix 0xfc00 7 (str ''fd12:3456:789a::1'') \<and> inPrefix 0xfd00 8 (str ''fd12:3456:789a::1'')
   \<and> \<not> isBlockedIP (str ''fd12:3456:789a::1'')
   \<and> inPrefix 0xfe80 10 (str ''fe90::1'') \<and> \<not> isBlockedIP (str ''fe90::1'')
   \<and> validateImageUrl sampleRuntime (str ''https://[fd12:3456:789a::1]/x'')
       = ([], Inr (str ''https://[fd12:3456:789a::1]/x''))"
  using ula_in_blocks ula_not_blocked link_local_not_blocked sample_ula by (intro conjI) blast+

section \<open>The bounded fetch\<close>

lemma validateImageUrl_returns_argument:
  "snd (validateImageUrl rt u) = Inr v \<Longrightarrow> v = u"
  by (auto simp add: validateImageUrl_def Let_def split: option.splits if_splits sum.splits)

text \<open>
  Claim C6. A buffer that \<open>loadImageAsBuffer\<close> returns is at most 50 MiB long. Once
  the file has passed \<open>validateImagePath\<close> and is read again, the result is the error
  \<open>Image file size exceeds maximum of 50MB\<close> exactly when the buffer is longer than
  50 * 1024 * 1024 bytes, and the buffer otherwise; the message names \<open>50MB\<close> and is
  none of the messages of the file validator. \<open>downloadImageAsBuffer\<close> validates the
  URL first and makes no request when that fails; otherwise it makes one request, for
  the validated URL, with a time-out of 60000 ms, a maximal content length of
  50 * 1024 * 1024 bytes and at most 5 redirects. It returns the body only when the
  content type, up to the first semicolon and trimmed, is one of \<open>image/png\<close>,
  \<open>image/jpeg\<close>, \<open>image/webp\<close> and \<open>image/gif\<close>. With a client that keeps the
  maximal content length, a downloaded buffer is at most 50 MiB long.
\<close>

theorem bounded_fetch:
  "(loadImageAsBuffer readFile imagePath = Inr loaded \<longrightarrow> length loaded \<le> 50 * 1024 * 1024)
   \<and> (validateImagePath readFile imagePath = Inr validated \<and> readFile imagePath = Inr buffer \<longrightarrow>
        loadImageAsBuffer readFile imagePath =
          (if 50 * 1024 * 1024 < length buffer
           then Inl (Error (str ''Image file size exceeds maximum of 50MB''))
           else Inr buffer))
   \<and> str_includes (str ''Image file size exceeds maximum of 50MB'') (str ''50MB'')
   \<and> str ''Image file size exceeds maximum of 50MB''
        \<notin> set [str ''Image file is empty: '' @ imagePath,
                 str ''Image file not found: '' @ imagePath,
                 str ''Permission denied reading image file: '' @ imagePath,
                 str ''File does not appear to be a valid image (PNG, JPEG, WebP, or GIF): ''
                 @ imagePath]
   \<and> (snd (validateImageUrl rt imageUrl) = Inl error \<longrightarrow>
        downloadImageAsBuffer rt axiosGet imageUrl = ([], Inl error))
   \<and> (snd (validateImageUrl rt imageUrl) = Inr validatedUrl \<longrightarrow>
        fst (downloadImageAsBuffer rt axiosGet imageUrl) =
          [(imageUrl, \<lparr>responseType = ArrayBuffer, timeout = 60000,
                       maxContentLength = 50 * 1024 * 1024, maxRedirects = 5\<rparr>)])
   \<and> (snd (downloadImageAsBuffer rt axiosGet imageUrl) = Inr downloaded \<longrightarrow>
        (\<exists>resp v. axiosGet imageUrl downloadConfig = Inr resp
           \<and> headers resp (str ''content-type'') = Some v
           \<and> trim (takeWhile (\<lambda>c. c \<noteq> ch CHR '';'') v)
               \<in> set [str ''image/png'', str ''image/jpeg'', str ''image/webp'', str ''image/gif'']
           \<and> downloaded = body resp))
   \<and> (keepsContentLength axiosGet \<and> snd (downloadImageAsBuffer rt axiosGet imageUrl) = Inr downloaded
        \<longrightarrow> length downloaded \<le> 50 * 1024 * 1024)"
proof (intro conjI impI)
  assume "loadImageAsBuffer readFile imagePath = Inr loaded"
  then show "length loaded \<le> 50 * 1024 * 1024"
    by (auto simp add: loadImageAsBuffer_def split: sum.splits if_splits)
next
  assume "validateImagePath readFile imagePath = Inr validated \<and> readFile imagePath = Inr buffer"
  then show "loadImageAsBuffer readFile imagePath =
          (if 50 * 1024 * 1024 < length buffer
           then Inl (Error (str ''Image file size exceeds maximum of 50MB''))
           else Inr buffer)"
    by (simp add: loadImageAsBuffer_def)
next
  show "str_includes (str ''Image file size exceeds maximum of 50MB'') (str ''50MB'')"
    using str_includes_append [of "str ''Image file size exceeds maximum of ''" "str ''50MB''" "[]"]
    by simp
next
  show "str ''Image file size exceeds maximum of 50MB''
        \<notin> set [str ''Image file is empty: '' @ imagePath,
                 str ''Image file not found: '' @ imagePath,
                 str ''Permission denied reading image file: '' @ imagePath,
                 str ''File does not appear to be a valid image (PNG, JPEG, WebP, or GIF): ''
                 @ imagePath]"
    by simp
next
  assume "snd (validateImageUrl rt imageUrl) = Inl error"
  then show "downloadImageAsBuffer rt axiosGet imageUrl = ([], Inl error)"
    by (simp add: downloadImageAsBuffer_def)
next
  assume a: "snd (validateImageUrl rt imageUrl) = Inr validatedUrl"
  then have "validatedUrl = imageUrl" by (rule validateImageUrl_returns_argument)
  with a show "fst (downloadImageAsBuffer rt axiosGet imageUrl) =
          [(imageUrl, \<lparr>responseType = ArrayBuffer, timeout = 60000,
                       maxContentLength = 50 * 1024 * 1024, maxRedirects = 5\<rparr>)]"
    by (simp add: downloadImageAsBuffer_def downloadConfig_def)
next
  assume a: "snd (downloadImageAsBuffer rt axiosGet imageUrl) = Inr downloaded"
  then obtain v where v: "snd (validateImageUrl rt imageUrl) = Inr v"
    by (cases "snd (validateImageUrl rt imageUrl)") (auto simp add: downloadImageAsBuffer_def)
  then have "v = imageUrl" by (rule validateImageUrl_returns_argument)
  with a v show "\<exists>resp v. axiosGet imageUrl downloadConfig = Inr resp
           \<and> headers resp (str ''content-type'') = Some v
           \<and> trim (takeWhile (\<lambda>c. c \<noteq> ch CHR '';'') v)
               \<in> set [str ''image/png'', str ''image/jpeg'', str ''image/webp'', str ''image/gif'']
           \<and> downloaded = body resp"
    by (auto simp add: downloadImageAsBuffer_def mediaType_def allowedMimeTypes_def Let_def
        split: sum.splits option.splits if_splits)
next
  assume a: "keepsContentLength axiosGet
      \<and> snd (downloadImageAsBuffer rt axiosGet imageUrl) = Inr downloaded"
  then obtain v where v: "snd (validateImageUrl rt imageUrl) = Inr v"
    by (cases "snd (validateImageUrl rt imageUrl)") (auto simp add: downloadImageAsBuffer_def)
  with a obtain resp where "axiosGet v downloadConfig = Inr resp" and "downloaded = body resp"
    by (auto simp add: downloadImageAsBuffer_def Let_def
        split: sum.splits option.splits if_splits)
  with a have "length downloaded \<le> maxContentLength downloadConfig"
    by (auto simp add: keepsContentLength_def)
  then show "length downloaded \<le> 50 * 1024 * 1024"
    by (simp add: downloadConfig_def)
qed


text \<open>
  The theorem at the files of the test suite (a JPEG header, and one followed by 51 MiB
  of zeros) and at two URLs of the example runtime.
\<close>

lemma sampleClient_keeps: "keepsContentLength sampleClient"
  by (auto simp add: keepsContentLength_def sampleClient_def split: if_splits)

theorem bounded_fetch_witness:
  "loadImageAsBuffer (\<lambda>path. Inr [0xFF, 0xD8, 0xFF, 0xE0]) (str ''test-image.jpg'')
     = Inr [0xFF, 0xD8, 0xFF, 0xE0]
   \<and> loadImageAsBuffer (\<lambda>path. Inr ([0xFF, 0xD8, 0xFF, 0xE0] @ replicate (51 * 1024 * 1024) 0))
       (str ''large.jpg'')
     = Inl (Error (str ''Image file size exceeds maximum of 50MB''))
   \<and> downloadImageAsBuffer sampleRuntime sampleClient (str ''https://localhost/image.jpg'')
     = ([], Inl (Error (str ''Access to cloud metadata endpoints is not allowed'')))
   \<and> fst (downloadImageAsBuffer sampleRuntime sampleClient (str ''https://example.com/image.jpg''))
     = [(str ''https://example.com/image.jpg'',
         \<lparr>responseType = ArrayBuffer, timeout = 60000, maxContentLength = 50 * 1024 * 1024,
          maxRedirects = 5\<rparr>)]
   \<and> snd (downloadImageAsBuffer sampleRuntime sampleClient (str ''https://example.com/image.jpg''))
     = Inr [0xFF, 0xD8, 0xFF, 0xE0]
   \<and> length [0xFF, 0xD8, 0xFF, 0xE0 :: byte] \<le> 50 * 1024 * 1024"
proof -
  let ?small = "[0xFF, 0xD8, 0xFF, 0xE0] :: byte list"
  let ?large = "[0xFF, 0xD8, 0xFF, 0xE0] @ replicate (51 * 1024 * 1024) (0 :: byte)"
  have v1: "validateImagePath (\<lambda>path. Inr ?small) (str ''test-image.jpg'') = Inr (str ''test-image.jpg'')"
    by (simp add: validateImagePath_cases imageFormat_def)
  have v2: "validateImagePath (\<lambda>path. Inr ?large) (str ''large.jpg'') = Inr (str ''large.jpg'')"
    by (simp add: validateImagePath_cases imageFormat_def)
  have a: "loadImageAsBuffer (\<lambda>path. Inr ?small) (str ''test-image.jpg'') = Inr ?small"
    using bounded_fetch
      [where readFile = "\<lambda>path. Inr ?small" and imagePath = "str ''test-image.jpg''"
         and validated = "str ''test-image.jpg''" and buffer = ?small,
       THEN conjunct2, THEN conjunct1] v1
    by simp
  have b: "loadImageAsBuffer (\<lambda>path. Inr ?large) (str ''large.jpg'')
      = Inl (Error (str ''Image file size exceeds maximum of 50MB''))"
    using bounded_fetch
      [where readFile = "\<lambda>path. Inr ?large" and imagePath = "str ''large.jpg''"
         and validated = "str ''large.jpg''" and buffer = ?large,
       THEN conjunct2, THEN conjunct1] v2
    by simp
  have c: "downloadImageAsBuffer sampleRuntime sampleClient (str ''https://localhost/image.jpg'')
      = ([], Inl (Error (str ''Access to cloud metadata endpoints is not allowed'')))"
    using bounded_fetch
      [where rt = sampleRuntime and imageUrl = "str ''https://localhost/image.jpg''"
         and error = "Error (str ''Access to cloud metadata endpoints is not allowed'')"
         and axiosGet = sampleClient,
       THEN conjunct2, THEN conjunct2, THEN conjunct2, THEN conjunct2, THEN conjunct1]
    unfolding sample_localhost by simp
  have d: "fst (downloadImageAsBuffer sampleRuntime sampleClient (str ''https://example.com/image.jpg''))
      = [(str ''https://example.com/image.jpg'',
         \<lparr>responseType = ArrayBuffer, timeout = 60000, maxContentLength = 50 * 1024 * 1024,
          maxRedirects = 5\<rparr>)]"
    using bounded_fetch
      [where rt = sampleRuntime and imageUrl = "str ''https://example.com/image.jpg''"
         and validatedUrl = "str ''https://example.com/image.jpg''" and axiosGet = sampleClient,
       THEN conjunct2, THEN conjunct2, THEN conjunct2, THEN conjunct2, THEN conjunct2,
       THEN conjunct1]
    unfolding sample_example by simp
  have e: "snd (downloadImageAsBuffer sampleRuntime sampleClient (str ''https://example.com/image.jpg''))
      = Inr ?small"
    unfolding downloadImageAsBuffer_def sample_example
    by (simp add: sampleClient_def downloadConfig_def mediaType_def trim_def isWhiteSpace_def
        allowedMimeTypes_def)
  have f: "length ?small \<le> 50 * 1024 * 1024"
    using bounded_fetch
      [where rt = sampleRuntime and imageUrl = "str ''https://example.com/image.jpg''"
         and axiosGet = sampleClient and downloaded = ?small,
       THEN conjunct2, THEN conjunct2, THEN conjunct2, THEN conjunct2, THEN conjunct2,
       THEN conjunct2, THEN conjunct2] sampleClient_keeps e
    by blast
  from a b c d e f show ?thesis by (intro conjI)
qed

end
